theory Spec2Isabelle
  imports Main "HOL-Library.Word"
begin

unbundle bit_operations_syntax

section \<open>JavaScript values used by astc-decode.js\<close>

text \<open>
  A \<^verbatim>\<open>Uint8Array\<close> is a list of bytes. Every number that \<^verbatim>\<open>parseASTCHeader\<close> and
  \<^verbatim>\<open>decodeASTCTexture\<close> compute is an integer far below \<open>2 ^ 53\<close>, where JavaScript's
  doubles are exact, so numbers are \<^typ>\<open>int\<close>. A value that may be \<^verbatim>\<open>undefined\<close> (a typed
  array read outside the view) or \<^verbatim>\<open>NaN\<close> (arithmetic on \<^verbatim>\<open>undefined\<close>) is an
  \<^typ>\<open>int option\<close>, with \<open>None\<close> for both.
\<close>

type_synonym byte = "8 word"
type_synonym i32 = "32 word"

text \<open>\<^verbatim>\<open>ToInt32\<close>: the conversion of the operands of \<^verbatim>\<open>|\<close>, \<^verbatim>\<open><<\<close>, \<^verbatim>\<open>>>>\<close> and of every
  argument handed to an i32 parameter of a WebAssembly export. \<^verbatim>\<open>undefined\<close> and
  \<^verbatim>\<open>NaN\<close> become 0; an integer wraps modulo \<open>2 ^ 32\<close>.\<close>

definition ToInt32 :: "int option \<Rightarrow> i32" where
  "ToInt32 v = (case v of None \<Rightarrow> 0 | Some k \<Rightarrow> word_of_int k)"

text \<open>\<^verbatim>\<open>a | b\<close> and \<^verbatim>\<open>a << n\<close>: 32-bit operations with a signed result.\<close>

definition js_or :: "int \<Rightarrow> int \<Rightarrow> int" where
  "js_or a b = sint (ToInt32 (Some a) OR ToInt32 (Some b))"

definition js_shl :: "int \<Rightarrow> nat \<Rightarrow> int" where
  "js_shl a n = sint (push_bit (n mod 32) (ToInt32 (Some a)))"

text \<open>\<^verbatim>\<open>v >>> 0\<close>: the unsigned reading of the 32-bit conversion.\<close>

definition js_ushr0 :: "int option \<Rightarrow> int" where
  "js_ushr0 v = uint (ToInt32 v)"

text \<open>The decimal rendering of a non-negative integer inside a template literal.\<close>

fun decimal :: "nat \<Rightarrow> string" where
  "decimal n =
     (if n < 10 then [char_of (48 + n)]
      else decimal (n div 10) @ [char_of (48 + n mod 10)])"

text \<open>\<^verbatim>\<open>%TypedArray%.prototype.subarray(begin, end)\<close> on integer arguments, read as the
  list of the elements the new view covers: a negative index counts from the end, and
  both indices are clamped to the view.\<close>

definition subarray :: "byte list \<Rightarrow> int \<Rightarrow> int \<Rightarrow> byte list" where
  "subarray xs b e =
     (let srcLength = int (length xs);
          beginIndex = (if b < 0 then max (srcLength + b) 0 else min b srcLength);
          endIndex = (if e < 0 then max (srcLength + e) 0 else min e srcLength);
          newLength = max (endIndex - beginIndex) 0
      in take (nat newLength) (drop (nat beginIndex) xs))"

text \<open>\<^verbatim>\<open>target.set(source, offset)\<close>: \<open>None\<close> is the \<^verbatim>\<open>RangeError\<close> raised when the source
  does not fit behind the offset.\<close>

definition typed_set :: "byte list \<Rightarrow> byte list \<Rightarrow> nat \<Rightarrow> byte list option" where
  "typed_set target source offset =
     (if length source + offset > length target then None
      else Some (take offset target @ source @ drop (offset + length source) target))"

section \<open>Errors\<close>

text \<open>What a WebAssembly export can throw into JavaScript: the \<^verbatim>\<open>Error\<close> of the import
  \<^verbatim>\<open>__wbindgen_throw(size, align)\<close> (lines 22-24), or the exception of a trap of the
  module.\<close>

datatype thrown =
    MemoryAllocationFailed int int
  | Trap

text \<open>Every \<^verbatim>\<open>throw\<close> of the two functions, one constructor for each message, and the
  exceptions that come from below them: the \<^verbatim>\<open>RangeError\<close> of a typed array (a source
  that does not fit, a buffer that cannot be allocated), the \<^verbatim>\<open>TypeError\<close> of a property
  read on \<^verbatim>\<open>null\<close>, and what an export threw.\<close>

datatype error =
    HeaderTooShort nat
  | InvalidMagic
  | InvalidImageDimensions
  | InvalidBlockDimensions
  | NotInitialized
  | NoCompressedData
  | RangeError
  | TypeError
  | Thrown thrown

section \<open>The header parser (lines 113-159)\<close>

record header =
  blockSize :: string
  blockWidth :: int
  blockHeight :: int
  blockDepth :: int
  dimensions :: string
  width :: int
  height :: int
  depth :: int
  isValid :: bool
  headerSize :: int

definition MIN_HEADER_LENGTH :: nat where
  "MIN_HEADER_LENGTH = 16"

definition EXPECTED_MAGIC :: "int list" where
  "EXPECTED_MAGIC = [0x13, 0xAB, 0xA1, 0x5C]"

text \<open>\<^verbatim>\<open>data[i]\<close> is read only behind the length check, where all sixteen indices are
  inside the array.\<close>

definition parseASTCHeader :: "byte list \<Rightarrow> error + header" where
  "parseASTCHeader data =
     (if length data < MIN_HEADER_LENGTH then Inl (HeaderTooShort (length data))
      else
        let isValidMagic =
              list_all (\<lambda>(byte, index). uint (data ! index) = byte)
                (zip EXPECTED_MAGIC [0..<length EXPECTED_MAGIC])
        in if \<not> isValidMagic then Inl InvalidMagic
        else
          let blockWidth = uint (data ! 4);
              blockHeight = uint (data ! 5);
              blockDepth = uint (data ! 6);
              width = js_or (js_or (uint (data ! 7)) (js_shl (uint (data ! 8)) 8))
                        (js_shl (uint (data ! 9)) 16);
              height = js_or (js_or (uint (data ! 10)) (js_shl (uint (data ! 11)) 8))
                         (js_shl (uint (data ! 12)) 16);
              depth = js_or (js_or (uint (data ! 13)) (js_shl (uint (data ! 14)) 8))
                        (js_shl (uint (data ! 15)) 16)
          in if width = 0 \<or> height = 0 then Inl InvalidImageDimensions
          else if blockWidth = 0 \<or> blockHeight = 0 then Inl InvalidBlockDimensions
          else Inr \<lparr>
            blockSize = decimal (nat blockWidth) @ ''x'' @ decimal (nat blockHeight),
            blockWidth = blockWidth,
            blockHeight = blockHeight,
            blockDepth = blockDepth,
            dimensions = decimal (nat width) @ ''x'' @ decimal (nat height),
            width = width,
            height = height,
            depth = depth,
            isValid = True,
            headerSize = int MIN_HEADER_LENGTH \<rparr>)"

section \<open>The WebAssembly module and the state of the script\<close>

text \<open>
  The module is fetched at run time and is no part of the repository: its exports are a
  parameter. An \<^verbatim>\<open>ArrayBuffer\<close> is known by its identity, a number, and the store
  \<open>buffers\<close> gives the bytes of each; a detached buffer has no bytes. An instance has a
  memory, whose current buffer is \<^verbatim>\<open>wasm.memory.buffer\<close>, and the rest of its state (its
  globals, the stack pointer among them). An export is a function of its i32 arguments,
  of the store and of the instance; it returns its i32 result, or \<open>Inl\<close> what it threw,
  with the store and the instance it leaves behind: it may have written to its memory
  and may have grown it, which detaches the old buffer and makes another the current
  one.
\<close>

type_synonym buffer = nat

record 'g wasm_instance =
  memory_buffer :: buffer
  globals :: 'g

type_synonym 'g wasm_world = "(buffer \<Rightarrow> byte list) \<times> 'g wasm_instance"

type_synonym ('g, 'a) wasm_call = "'g wasm_world \<Rightarrow> (thrown + 'a) \<times> 'g wasm_world"

record 'g wasm_exports =
  wbindgen_add_to_stack_pointer :: "i32 \<Rightarrow> ('g, i32) wasm_call"
  wbindgen_malloc :: "i32 \<Rightarrow> i32 \<Rightarrow> ('g, i32) wasm_call"
  wbindgen_free :: "i32 \<Rightarrow> i32 \<Rightarrow> ('g, unit) wasm_call"
  astcDecode :: "i32 \<Rightarrow> i32 \<Rightarrow> i32 \<Rightarrow> i32 \<Rightarrow> i32 \<Rightarrow> i32 \<Rightarrow> i32 \<Rightarrow> ('g, unit) wasm_call"

text \<open>
  The state that the functions of astc-decode.js work on: the store of buffers, the
  sizes of which the engine can allocate a new typed array now (\<^verbatim>\<open>new Uint8Array(n)\<close>
  and \<^verbatim>\<open>.slice()\<close> throw a \<^verbatim>\<open>RangeError\<close> for the others), and the module-level
  variables. \<^verbatim>\<open>wasm\<close> is \<^verbatim>\<open>null\<close> (\<open>None\<close>) until \<^verbatim>\<open>initASTCDecoder\<close> has instantiated
  the module. \<^verbatim>\<open>cachedUint8Memory0\<close> and \<^verbatim>\<open>cachedInt32Memory0\<close> are \<^verbatim>\<open>null\<close> or a view,
  which is known by the buffer it is on: a view covers its whole buffer, and a buffer
  keeps its length until it is detached.
\<close>

record 'g js_state =
  buffers :: "buffer \<Rightarrow> byte list"
  can_allocate :: "nat \<Rightarrow> bool"
  wasm :: "'g wasm_instance option"
  cachedUint8Memory0 :: "buffer option"
  cachedInt32Memory0 :: "buffer option"
  WASM_VECTOR_LEN :: nat

text \<open>A piece of script runs from a state to a value or an exception, and a state.\<close>

type_synonym ('g, 'a) js = "'g js_state \<Rightarrow> (error + 'a) \<times> 'g js_state"

definition js_return :: "'a \<Rightarrow> ('g, 'a) js" where
  "js_return a s = (Inr a, s)"

definition js_throw :: "error \<Rightarrow> ('g, 'a) js" where
  "js_throw e s = (Inl e, s)"

definition js_bind :: "('g, 'a) js \<Rightarrow> ('a \<Rightarrow> ('g, 'b) js) \<Rightarrow> ('g, 'b) js" where
  "js_bind f g s = (case f s of (Inl e, s1) \<Rightarrow> (Inl e, s1) | (Inr a, s1) \<Rightarrow> g a s1)"

text \<open>\<^verbatim>\<open>wasm.f(...)\<close>: a \<^verbatim>\<open>TypeError\<close> on \<^verbatim>\<open>null\<close>; otherwise the export runs on the store
  and the instance, and what it leaves behind is the new store and instance.\<close>

definition call_export :: "('g, 'a) wasm_call \<Rightarrow> ('g, 'a) js" where
  "call_export f s =
     (case wasm s of
        None \<Rightarrow> (Inl TypeError, s)
      | Some w \<Rightarrow>
          (case f (buffers s, w) of
             (Inl t, (bs, w')) \<Rightarrow> (Inl (Thrown t), s\<lparr>buffers := bs, wasm := Some w'\<rparr>)
           | (Inr v, (bs, w')) \<Rightarrow> (Inr v, s\<lparr>buffers := bs, wasm := Some w'\<rparr>)))"

text \<open>\<^verbatim>\<open>new Uint8Array(n)\<close>: \<open>n\<close> zero bytes; a \<^verbatim>\<open>RangeError\<close> for a negative \<open>n\<close> and
  when the engine cannot allocate \<open>n\<close> bytes. \<^verbatim>\<open>view.slice()\<close>: a copy, which needs as
  many bytes.\<close>

definition new_Uint8Array :: "int \<Rightarrow> ('g, byte list) js" where
  "new_Uint8Array n s =
     (if n < 0 \<or> \<not> can_allocate s (nat n) then (Inl RangeError, s)
      else (Inr (replicate (nat n) 0), s))"

definition typed_slice :: "byte list \<Rightarrow> ('g, byte list) js" where
  "typed_slice xs s =
     (if \<not> can_allocate s (length xs) then (Inl RangeError, s) else (Inr xs, s))"

text \<open>\<^verbatim>\<open>view.set(source, offset)\<close> on the view of a buffer.\<close>

definition view_set :: "buffer \<Rightarrow> byte list \<Rightarrow> nat \<Rightarrow> ('g, unit) js" where
  "view_set b source offset s =
     (case typed_set (buffers s b) source offset of
        None \<Rightarrow> (Inl RangeError, s)
      | Some mem \<Rightarrow> (Inr (), s\<lparr>buffers := (buffers s)(b := mem)\<rparr>))"

text \<open>Lines 39-44: the cached view is kept unless it is \<^verbatim>\<open>null\<close> or has no bytes, and
  only then a view of the current memory of \<^verbatim>\<open>wasm\<close> replaces it. Nothing else resets
  the cache: after a second \<^verbatim>\<open>initASTCDecoder\<close> the cached view is still on the memory
  of the first instance.\<close>

definition getUint8Memory0 :: "('g, buffer) js" where
  "getUint8Memory0 s =
     (if (case cachedUint8Memory0 s of None \<Rightarrow> True | Some b \<Rightarrow> length (buffers s b) = 0)
      then
        (case wasm s of
           None \<Rightarrow> (Inl TypeError, s)
         | Some w \<Rightarrow> (Inr (memory_buffer w), s\<lparr>cachedUint8Memory0 := Some (memory_buffer w)\<rparr>))
      else
        (case cachedUint8Memory0 s of
           None \<Rightarrow> (Inl TypeError, s)
         | Some b \<Rightarrow> (Inr b, s)))"

text \<open>Lines 53-58: the same for the \<^verbatim>\<open>Int32Array\<close> view; \<^verbatim>\<open>new Int32Array(buffer)\<close>
  throws a \<^verbatim>\<open>RangeError\<close> on a buffer whose length is not a multiple of four.\<close>

definition getInt32Memory0 :: "('g, buffer) js" where
  "getInt32Memory0 s =
     (if (case cachedInt32Memory0 s of None \<Rightarrow> True | Some b \<Rightarrow> length (buffers s b) = 0)
      then
        (case wasm s of
           None \<Rightarrow> (Inl TypeError, s)
         | Some w \<Rightarrow>
             if length (buffers s (memory_buffer w)) mod 4 \<noteq> 0 then (Inl RangeError, s)
             else (Inr (memory_buffer w), s\<lparr>cachedInt32Memory0 := Some (memory_buffer w)\<rparr>))
      else
        (case cachedInt32Memory0 s of
           None \<Rightarrow> (Inl TypeError, s)
         | Some b \<Rightarrow> (Inr b, s)))"

text \<open>The elements of an \<^verbatim>\<open>Int32Array\<close> view: one for each group of four bytes, read
  little-endian.\<close>

definition int32_le :: "byte \<Rightarrow> byte \<Rightarrow> byte \<Rightarrow> byte \<Rightarrow> i32" where
  "int32_le b0 b1 b2 b3 =
     ucast b0 OR push_bit 8 (ucast b1) OR push_bit 16 (ucast b2) OR push_bit 24 (ucast b3)"

definition int32_view :: "byte list \<Rightarrow> i32 list" where
  "int32_view mem =
     map (\<lambda>i. int32_le (mem ! (4 * i)) (mem ! (4 * i + 1)) (mem ! (4 * i + 2)) (mem ! (4 * i + 3)))
       [0..<length mem div 4]"

text \<open>\<^verbatim>\<open>view[p / 4 + k]\<close>: \<^verbatim>\<open>undefined\<close> unless the index is an integer inside the
  view.\<close>

definition int32_get :: "i32 list \<Rightarrow> int \<Rightarrow> int \<Rightarrow> int option" where
  "int32_get view p k =
     (if p mod 4 = 0 \<and> 0 \<le> p div 4 + k \<and> p div 4 + k < int (length view)
      then Some (sint (view ! nat (p div 4 + k)))
      else None)"

text \<open>\<^verbatim>\<open>getInt32Memory0()[p / 4 + k]\<close>.\<close>

definition read_int32 :: "int \<Rightarrow> int \<Rightarrow> ('g, int option) js" where
  "read_int32 p k =
     js_bind getInt32Memory0 (\<lambda>b s. (Inr (int32_get (int32_view (buffers s b)) p k), s))"

text \<open>Lines 73-78.\<close>

definition passArray8ToWasm0 :: "byte list \<Rightarrow> (i32 \<Rightarrow> i32 \<Rightarrow> ('g, i32) wasm_call) \<Rightarrow> ('g, int) js" where
  "passArray8ToWasm0 arg malloc =
     js_bind (call_export (malloc (ToInt32 (Some (int (length arg) * 1))) (ToInt32 (Some 1))))
       (\<lambda>r. let ptr = js_ushr0 (Some (sint r)) in
          js_bind getUint8Memory0 (\<lambda>b.
            js_bind (view_set b arg (nat ptr)) (\<lambda>_.
              js_bind (\<lambda>s. (Inr (), s\<lparr>WASM_VECTOR_LEN := length arg\<rparr>)) (\<lambda>_.
                js_return ptr))))"

text \<open>Lines 86-89: the bytes that the view which \<^verbatim>\<open>subarray\<close> returns covers.\<close>

definition getArrayU8FromWasm0 :: "int option \<Rightarrow> int option \<Rightarrow> ('g, byte list) js" where
  "getArrayU8FromWasm0 ptr len =
     (let ptr = js_ushr0 ptr in
      js_bind getUint8Memory0 (\<lambda>b s.
        (Inr (subarray (buffers s b) ptr (case len of None \<Rightarrow> 0 | Some l \<Rightarrow> ptr + l)), s)))"

section \<open>The decoder (lines 171-238)\<close>

text \<open>Lines 189-196 of the \<^verbatim>\<open>try\<close> block: the return area and the payload go into the
  module. Every argument of an export goes through \<^verbatim>\<open>ToInt32\<close>; an i32 result comes
  back as a signed number.\<close>

definition astcDecode_enter :: "'g wasm_exports \<Rightarrow> byte list \<Rightarrow> ('g, int \<times> int) js" where
  "astcDecode_enter m compressedData =
     js_bind (call_export (wbindgen_add_to_stack_pointer m (ToInt32 (Some (- 16)))))
       (\<lambda>r. let returnPointer = sint r in
          js_bind (passArray8ToWasm0 compressedData (wbindgen_malloc m)) (\<lambda>dataPointer.
            js_return (returnPointer, dataPointer)))"

text \<open>Lines 209-217: the result is read back. \<^verbatim>\<open>decodedImage\<close> is the copy that
  \<^verbatim>\<open>.slice()\<close> makes of the bytes the two numbers of the return area point to, so the
  call of \<^verbatim>\<open>__wbindgen_free\<close> behind it does not change it.\<close>

definition astcDecode_readback :: "'g wasm_exports \<Rightarrow> int \<Rightarrow> ('g, byte list) js" where
  "astcDecode_readback m returnPointer =
     js_bind (read_int32 returnPointer 0) (\<lambda>resultPointer.
       js_bind (read_int32 returnPointer 1) (\<lambda>resultLength.
         js_bind (getArrayU8FromWasm0 resultPointer resultLength) (\<lambda>view.
           js_bind (typed_slice view) (\<lambda>decodedImage.
             js_bind (call_export (wbindgen_free m (ToInt32 resultPointer) (ToInt32 resultLength)))
               (\<lambda>_. js_return decodedImage)))))"

text \<open>Lines 189-217: the calls into the module, with the call of \<^verbatim>\<open>astcDecode\<close> of lines
  198-207 between the two parts above.\<close>

definition astcDecode_call :: "'g wasm_exports \<Rightarrow> header \<Rightarrow> byte list \<Rightarrow> ('g, byte list) js" where
  "astcDecode_call m header compressedData =
     js_bind (astcDecode_enter m compressedData) (\<lambda>(returnPointer, dataPointer).
       js_bind (\<lambda>s. call_export
                  (astcDecode m
                     (ToInt32 (Some returnPointer))
                     (ToInt32 (Some dataPointer))
                     (ToInt32 (Some (int (WASM_VECTOR_LEN s))))
                     (ToInt32 (Some (width header)))
                     (ToInt32 (Some (height header)))
                     (ToInt32 (Some (blockWidth header)))
                     (ToInt32 (Some (blockHeight header)))) s)
         (\<lambda>_. astcDecode_readback m returnPointer))"

text \<open>Lines 219-232: the size check and the repair of a buffer of another size. The
  warning on the console is not part of the model.\<close>

definition fitDecodedImage :: "header \<Rightarrow> byte list \<Rightarrow> ('g, byte list) js" where
  "fitDecodedImage header decodedImage =
     (let expectedSize = width header * height header * 4
      in if int (length decodedImage) \<noteq> expectedSize then
           js_bind (new_Uint8Array expectedSize) (\<lambda>properSizedData.
             let copyLength = min (int (length decodedImage)) expectedSize
             in (case typed_set properSizedData (subarray decodedImage 0 copyLength) 0 of
                   None \<Rightarrow> js_throw RangeError
                 | Some filled \<Rightarrow> js_return filled))
         else js_return decodedImage)"

definition decodeASTCTexture_try :: "'g wasm_exports \<Rightarrow> header \<Rightarrow> byte list \<Rightarrow> ('g, byte list) js" where
  "decodeASTCTexture_try m header compressedData =
     js_bind (astcDecode_call m header compressedData) (fitDecodedImage header)"

text \<open>Lines 234-237: the \<^verbatim>\<open>finally\<close> block.\<close>

definition decodeASTCTexture_finally :: "'g wasm_exports \<Rightarrow> ('g, unit) js" where
  "decodeASTCTexture_finally m =
     js_bind (call_export (wbindgen_add_to_stack_pointer m (ToInt32 (Some 16))))
       (\<lambda>_. js_return ())"

text \<open>\<^verbatim>\<open>try { ... } finally { ... }\<close>: the \<^verbatim>\<open>finally\<close> block runs on the state the
  \<^verbatim>\<open>try\<close> block leaves, whether it returned or threw; what the \<^verbatim>\<open>finally\<close> block throws
  replaces the outcome of the \<^verbatim>\<open>try\<close> block.\<close>

definition try_finally :: "('g, 'a) js \<Rightarrow> ('g, unit) js \<Rightarrow> ('g, 'a) js" where
  "try_finally body cleanup s =
     (case body s of
        (outcome, s1) \<Rightarrow>
          (case cleanup s1 of
             (Inl e, s2) \<Rightarrow> (Inl e, s2)
           | (Inr _, s2) \<Rightarrow> (outcome, s2)))"

definition decodeASTCTexture :: "'g wasm_exports \<Rightarrow> byte list \<Rightarrow> ('g, byte list) js" where
  "decodeASTCTexture m astcData s =
     (case wasm s of
        None \<Rightarrow> (Inl NotInitialized, s)
      | Some _ \<Rightarrow>
          (case parseASTCHeader astcData of
             Inl e \<Rightarrow> (Inl e, s)
           | Inr header \<Rightarrow>
               let compressedData =
                     subarray astcData (headerSize header) (int (length astcData))
               in if length compressedData = 0 then (Inl NoCompressedData, s)
                  else try_finally (decodeASTCTexture_try m header compressedData)
                         (decodeASTCTexture_finally m) s))"

text \<open>Lines 252-280, when every step succeeds: line 271 assigns \<^verbatim>\<open>wasm\<close> and nothing
  else; the memory of the new instance is a new buffer in the store.\<close>

definition initASTCDecoder_done :: "'g wasm_instance \<Rightarrow> byte list \<Rightarrow> 'g js_state \<Rightarrow> 'g js_state" where
  "initASTCDecoder_done w mem s =
     s\<lparr>buffers := (buffers s)(memory_buffer w := mem), wasm := Some w\<rparr>"

section \<open>Vocabulary of the properties\<close>

text \<open>The file signature of the header comment (lines 95-105) as bytes, and the
  unsigned 24-bit little-endian number that three bytes store.\<close>

definition magic_bytes :: "byte list" where
  "magic_bytes = [0x13, 0xAB, 0xA1, 0x5C]"

definition uint24_le :: "byte \<Rightarrow> byte \<Rightarrow> byte \<Rightarrow> int" where
  "uint24_le b0 b1 b2 = uint b0 + 256 * uint b1 + 65536 * uint b2"

text \<open>The repository has no encoder. For the round trip, \<open>serializeASTCHeader\<close> writes
  the six numeric fields of a header record into the sixteen-byte layout of the header
  comment (lines 95-105): the signature, one byte for each block dimension, three
  little-endian bytes for each image dimension. \<open>valid_header\<close> says that the fields fit
  that layout and that the four components the parser checks are not zero.\<close>

definition uint24_le_bytes :: "int \<Rightarrow> byte list" where
  "uint24_le_bytes v = [word_of_int v, word_of_int (v div 256), word_of_int (v div 65536)]"

definition serializeASTCHeader :: "header \<Rightarrow> byte list" where
  "serializeASTCHeader h =
     magic_bytes
     @ [word_of_int (blockWidth h), word_of_int (blockHeight h), word_of_int (blockDepth h)]
     @ uint24_le_bytes (width h) @ uint24_le_bytes (height h) @ uint24_le_bytes (depth h)"

definition valid_header :: "header \<Rightarrow> bool" where
  "valid_header h \<longleftrightarrow>
     0 < blockWidth h \<and> blockWidth h < 256 \<and> 0 < blockHeight h \<and> blockHeight h < 256
     \<and> 0 \<le> blockDepth h \<and> blockDepth h < 256
     \<and> 0 < width h \<and> width h < 2 ^ 24 \<and> 0 < height h \<and> height h < 2 ^ 24
     \<and> 0 \<le> depth h \<and> depth h < 2 ^ 24"

text \<open>The first \<open>n\<close> bytes of a buffer, padded with zeros when it has fewer.\<close>

definition zero_padded :: "nat \<Rightarrow> byte list \<Rightarrow> byte list" where
  "zero_padded n img = take n img @ replicate (n - length img) 0"

section \<open>Concrete inputs\<close>

text \<open>The header of the end-to-end scenario: 4x4 blocks, an 8x8 image of depth 1, that
  is a grid of 2x2 blocks; and one sixteen-byte block of payload.\<close>

definition example_header :: "byte list" where
  "example_header = [0x13, 0xAB, 0xA1, 0x5C, 4, 4, 1, 8, 0, 0, 8, 0, 0, 1, 0, 0]"

definition example_parsed :: header where
  "example_parsed = \<lparr>
     blockSize = ''4x4'', blockWidth = 4, blockHeight = 4, blockDepth = 1,
     dimensions = ''8x8'', width = 8, height = 8, depth = 1,
     isValid = True, headerSize = 16 \<rparr>"

definition one_block :: "byte list" where
  "one_block = [255, 0, 0, 255, 0, 0, 0, 0, 0, 0, 0, 0, 0, 0, 0, 0]"

text \<open>The same header with block depth 0 and image depth 0.\<close>

definition flat_header :: "byte list" where
  "flat_header = [0x13, 0xAB, 0xA1, 0x5C, 4, 4, 0, 8, 0, 0, 8, 0, 0, 0, 0, 0]"

definition flat_parsed :: header where
  "flat_parsed = \<lparr>
     blockSize = ''4x4'', blockWidth = 4, blockHeight = 4, blockDepth = 0,
     dimensions = ''8x8'', width = 8, height = 8, depth = 0,
     isValid = True, headerSize = 16 \<rparr>"

text \<open>A header with the signature zeroed, a header of a 1x1 image of depth 2 and a header
  of a 2x1 image of depth 1.\<close>

definition zeroed_magic_header :: "byte list" where
  "zeroed_magic_header = [0, 0, 0, 0, 4, 4, 1, 8, 0, 0, 8, 0, 0, 1, 0, 0]"

definition deep_pixel_header :: "byte list" where
  "deep_pixel_header = [0x13, 0xAB, 0xA1, 0x5C, 4, 4, 1, 1, 0, 0, 1, 0, 0, 2, 0, 0]"

definition deep_pixel_parsed :: header where
  "deep_pixel_parsed = \<lparr>
     blockSize = ''4x4'', blockWidth = 4, blockHeight = 4, blockDepth = 1,
     dimensions = ''1x1'', width = 1, height = 1, depth = 2,
     isValid = True, headerSize = 16 \<rparr>"

definition two_pixel_header :: "byte list" where
  "two_pixel_header = [0x13, 0xAB, 0xA1, 0x5C, 4, 4, 1, 2, 0, 0, 1, 0, 0, 1, 0, 0]"

definition two_pixel_parsed :: header where
  "two_pixel_parsed = \<lparr>
     blockSize = ''4x4'', blockWidth = 4, blockHeight = 4, blockDepth = 1,
     dimensions = ''2x1'', width = 2, height = 1, depth = 1,
     isValid = True, headerSize = 16 \<rparr>"

text \<open>A header that declares the largest image of the format, 16777215 x 16777215.\<close>

definition huge_header :: "byte list" where
  "huge_header = [0x13, 0xAB, 0xA1, 0x5C, 4, 4, 1, 255, 255, 255, 255, 255, 255, 1, 0, 0]"

definition huge_parsed :: header where
  "huge_parsed = \<lparr>
     blockSize = ''4x4'', blockWidth = 4, blockHeight = 4, blockDepth = 1,
     dimensions = ''16777215x16777215'', width = 16777215, height = 16777215, depth = 1,
     isValid = True, headerSize = 16 \<rparr>"

text \<open>A small module to run the decoder on: its stack pointer is always 0, its allocator
  always answers address 8, and its \<open>astcDecode\<close> answers every call with the first four
  bytes of the payload, writing their address and the length 4 into the return area at
  the start of its memory. It never grows its memory.\<close>

definition store_i32 :: "byte list \<Rightarrow> nat \<Rightarrow> i32 \<Rightarrow> byte list" where
  "store_i32 mem a v =
     take a mem
     @ [ucast v, ucast (drop_bit 8 v), ucast (drop_bit 16 v), ucast (drop_bit 24 v)]
     @ drop (a + 4) mem"

definition first_pixel_module :: "unit wasm_exports" where
  "first_pixel_module = \<lparr>
     wbindgen_add_to_stack_pointer = (\<lambda>delta world. (Inr 0, world)),
     wbindgen_malloc = (\<lambda>size align world. (Inr 8, world)),
     wbindgen_free = (\<lambda>ptr size world. (Inr (), world)),
     astcDecode = (\<lambda>retptr ptr len wd ht bw bh (bs, w).
       (Inr (),
        (bs(memory_buffer w :=
              store_i32 (store_i32 (bs (memory_buffer w)) (unat retptr) ptr) (unat retptr + 4) 4),
         w))) \<rparr>"

text \<open>The state after \<^verbatim>\<open>initASTCDecoder\<close>: an instance whose memory, buffer 0, is one
  page of 65536 zero bytes, of which the runs below touch the first 32; no view is
  cached yet; the engine allocates typed arrays of less than \<open>2 ^ 32\<close> bytes.\<close>

definition spare_memory :: "byte list" where
  "spare_memory = replicate 65504 0"

definition fresh_memory :: "byte list" where
  "fresh_memory = replicate 32 0 @ spare_memory"

definition fresh_instance :: "unit wasm_instance" where
  "fresh_instance = \<lparr> memory_buffer = 0, globals = () \<rparr>"

definition ready_state :: "unit js_state" where
  "ready_state = \<lparr>
     buffers = (\<lambda>_. [])(0 := fresh_memory),
     can_allocate = (\<lambda>n. n < 2 ^ 32),
     wasm = Some fresh_instance,
     cachedUint8Memory0 = None,
     cachedInt32Memory0 = None,
     WASM_VECTOR_LEN = 0 \<rparr>"

text \<open>The state after one call of the decoder on the payload \<open>one_block\<close>: the return
  area holds the address 8 and the length 4, the payload lies behind it, and both views
  are cached.\<close>

definition used_memory :: "byte list" where
  "used_memory = [8, 0, 0, 0, 4, 0, 0, 0] @ one_block @ replicate 8 0 @ spare_memory"

definition used_state :: "unit js_state" where
  "used_state = \<lparr>
     buffers = (\<lambda>_. [])(0 := used_memory),
     can_allocate = (\<lambda>n. n < 2 ^ 32),
     wasm = Some fresh_instance,
     cachedUint8Memory0 = Some 0,
     cachedInt32Memory0 = Some 0,
     WASM_VECTOR_LEN = 16 \<rparr>"

section \<open>Vocabulary of the proofs\<close>


section \<open>The bit operations of the parser on bytes\<close>

declare decimal.simps [simp del]

lemma sint_small: "0 \<le> x \<Longrightarrow> x < 2 ^ 31 \<Longrightarrow> sint (word_of_int x :: i32) = x"
  by (simp add: sint_sbintrunc' signed_take_bit_int_eq_self)

lemma js_shl_small:
  assumes "0 \<le> a" "a < 256" "n \<le> 16"
  shows "js_shl a n = a * 2 ^ n"
proof -
  have "(2::int) ^ n \<le> 2 ^ 16"
    using assms(3) by (intro power_increasing) simp_all
  then have "a * 2 ^ n \<le> 255 * 2 ^ 16"
    using assms(1,2) by (intro mult_mono) simp_all
  then have "a * 2 ^ n < 2 ^ 31" by simp
  moreover have "0 \<le> a * 2 ^ n" using assms by simp
  ultimately have "sint (word_of_int (a * 2 ^ n) :: i32) = a * 2 ^ n"
    by (intro sint_small)
  moreover have "push_bit n (word_of_int a :: i32) = word_of_int (a * 2 ^ n)"
    by (simp add: push_bit_eq_mult)
  moreover have "n mod 32 = n" using assms by simp
  ultimately show ?thesis by (simp only: js_shl_def ToInt32_def option.case)
qed

lemma js_or_small:
  assumes "0 \<le> a" "a < 2 ^ 31" "0 \<le> b" "b < 2 ^ 31"
  shows "js_or a b = a OR b"
proof -
  have "a OR b < 2 ^ 31" using OR_upper [of a 31 b] assms by simp
  moreover have "0 \<le> a OR b" using assms by simp
  ultimately have "sint (word_of_int (a OR b) :: i32) = a OR b"
    by (intro sint_small) simp_all
  moreover have "(word_of_int a :: i32) OR word_of_int b = word_of_int (a OR b)"
    by (rule of_int_or_eq [symmetric])
  ultimately show ?thesis by (simp only: js_or_def ToInt32_def option.case)
qed

lemma or_shift_add:
  fixes a b :: int
  assumes "0 \<le> a" "a < 2 ^ n"
  shows "a OR (b * 2 ^ n) = a + b * 2 ^ n"
proof -
  have low: "take_bit n a = a" using assms by (simp add: take_bit_int_eq_self)
  then have "a OR push_bit n b = concat_bit n a b" by (simp add: concat_bit_def)
  then show ?thesis using low by (simp add: concat_bit_eq push_bit_eq_mult)
qed

text \<open>The expression of lines 134-136 computes the 24-bit little-endian number: the three
  shifted bytes do not overlap and the result stays below \<open>2 ^ 31\<close>, so the 32-bit
  operations neither lose a bit nor produce a sign.\<close>

lemma js_uint24_le:
  fixes a b c :: byte
  shows "js_or (js_or (uint a) (js_shl (uint b) 8)) (js_shl (uint c) 16) = uint24_le a b c"
proof -
  have a: "0 \<le> uint a" "uint a < 256" using uint_lt2p [of a] by simp_all
  have b: "0 \<le> uint b" "uint b < 256" using uint_lt2p [of b] by simp_all
  have c: "0 \<le> uint c" "uint c < 256" using uint_lt2p [of c] by simp_all
  have sb: "js_shl (uint b) 8 = uint b * 256" using js_shl_small [of "uint b" 8] b by simp
  have sc: "js_shl (uint c) 16 = uint c * 65536" using js_shl_small [of "uint c" 16] c by simp
  have ab: "js_or (uint a) (uint b * 256) = uint a + uint b * 256"
  proof -
    have "js_or (uint a) (uint b * 256) = uint a OR (uint b * 256)"
      using a b by (intro js_or_small) simp_all
    also have "\<dots> = uint a + uint b * 256"
      using or_shift_add [of "uint a" 8 "uint b"] a by simp
    finally show ?thesis .
  qed
  have ab_bound: "0 \<le> uint a + uint b * 256" "uint a + uint b * 256 < 65536"
    using a b by simp_all
  have "js_or (uint a + uint b * 256) (uint c * 65536)
          = (uint a + uint b * 256) OR (uint c * 65536)"
    using ab_bound c by (intro js_or_small) simp_all
  also have "\<dots> = (uint a + uint b * 256) + uint c * 65536"
    using or_shift_add [of "uint a + uint b * 256" 16 "uint c"] ab_bound by simp
  finally show ?thesis by (simp add: sb sc ab uint24_le_def)
qed

lemma uint24_le_nonneg: "0 \<le> uint24_le a b c"
  by (simp add: uint24_le_def)

lemma uint_byte_of_int: "uint (word_of_int v :: byte) = v mod 256"
  by (simp add: uint_word_of_int)

lemma uint24_le_of_bytes:
  assumes "0 \<le> v" "v < 2 ^ 24"
  shows "uint24_le (word_of_int v) (word_of_int (v div 256)) (word_of_int (v div 65536)) = v"
proof -
  have "v div 65536 < 256" using assms by simp
  then have top: "(v div 65536) mod 256 = v div 65536" using assms(1) by simp
  have "v div 256 = 256 * (v div 256 div 256) + v div 256 mod 256" by simp
  moreover have "v div 256 div 256 = v div 65536" by (simp add: zdiv_zmult2_eq [symmetric])
  ultimately have mid: "v div 256 = 256 * (v div 65536) + v div 256 mod 256" by simp
  have low: "v = 256 * (v div 256) + v mod 256" by simp
  have "v mod 256 + 256 * (v div 256 mod 256) + 65536 * (v div 65536) = v"
    using mid low by linarith
  then show ?thesis
    unfolding uint24_le_def uint_byte_of_int top .
qed

lemma byte_of_int_nonzero:
  assumes "0 < v" "v < 256"
  shows "(word_of_int v :: byte) \<noteq> 0"
proof
  assume "(word_of_int v :: byte) = 0"
  then have "uint (word_of_int v :: byte) = 0" by simp
  then show False using assms by (simp add: uint_byte_of_int)
qed

section \<open>What the parser computes\<close>

lemma magic_check:
  assumes "16 \<le> length data"
  shows "list_all (\<lambda>(byte, index). uint (data ! index) = byte)
           (zip EXPECTED_MAGIC [0..<length EXPECTED_MAGIC]) \<longleftrightarrow> take 4 data = magic_bytes"
proof -
  obtain a b c d rest where data: "data = a # b # c # d # rest"
    using assms
    by (cases data; cases "tl data"; cases "tl (tl data)"; cases "tl (tl (tl data))") auto
  have upt4: "[0..<4] = [0, 1, 2, 3]" by (simp add: upt_rec)
  show ?thesis
    unfolding data EXPECTED_MAGIC_def magic_bytes_def
    by (simp add: upt4 word_uint_eq_iff)
qed

lemma parseASTCHeader_cases:
  "parseASTCHeader data =
     (if length data < 16 then Inl (HeaderTooShort (length data))
      else if take 4 data \<noteq> magic_bytes then Inl InvalidMagic
      else if uint24_le (data ! 7) (data ! 8) (data ! 9) = 0
              \<or> uint24_le (data ! 10) (data ! 11) (data ! 12) = 0
        then Inl InvalidImageDimensions
      else if data ! 4 = 0 \<or> data ! 5 = 0 then Inl InvalidBlockDimensions
      else Inr \<lparr>
        blockSize = decimal (unat (data ! 4)) @ ''x'' @ decimal (unat (data ! 5)),
        blockWidth = uint (data ! 4),
        blockHeight = uint (data ! 5),
        blockDepth = uint (data ! 6),
        dimensions = decimal (nat (uint24_le (data ! 7) (data ! 8) (data ! 9))) @ ''x''
                       @ decimal (nat (uint24_le (data ! 10) (data ! 11) (data ! 12))),
        width = uint24_le (data ! 7) (data ! 8) (data ! 9),
        height = uint24_le (data ! 10) (data ! 11) (data ! 12),
        depth = uint24_le (data ! 13) (data ! 14) (data ! 15),
        isValid = True,
        headerSize = 16 \<rparr>)"
proof (cases "length data < 16")
  case True
  then show ?thesis by (simp add: parseASTCHeader_def MIN_HEADER_LENGTH_def)
next
  case False
  then have len: "16 \<le> length data" by simp
  show ?thesis
    using len
    by (simp add: parseASTCHeader_def MIN_HEADER_LENGTH_def magic_check [OF len] js_uint24_le
          Let_def uint_0_iff)
qed

lemma parse_length: "parseASTCHeader data = Inr h \<Longrightarrow> 16 \<le> length data"
  by (auto simp: parseASTCHeader_cases split: if_splits)

lemma parse_headerSize: "parseASTCHeader data = Inr h \<Longrightarrow> headerSize h = 16"
  by (auto simp: parseASTCHeader_cases split: if_splits)

lemma parse_positive:
  assumes "parseASTCHeader data = Inr h"
  shows "0 < width h" "0 < height h"
proof -
  have "width h \<noteq> 0 \<and> height h \<noteq> 0 \<and> 0 \<le> width h \<and> 0 \<le> height h"
    using assms uint24_le_nonneg
    by (auto simp: parseASTCHeader_cases split: if_splits)
  then show "0 < width h" "0 < height h" by simp_all
qed

lemma parse_example: "parseASTCHeader example_header = Inr example_parsed"
  by code_simp

lemma parse_deep_pixel: "parseASTCHeader (deep_pixel_header @ one_block) = Inr deep_pixel_parsed"
  by code_simp

lemma parse_two_pixel: "parseASTCHeader (two_pixel_header @ one_block) = Inr two_pixel_parsed"
  by code_simp

section \<open>Properties of the header parser\<close>

text \<open>
  C4. Whenever \<open>parseASTCHeader\<close> succeeds, the block width, height and depth of the
  record it returns are bytes 4, 5 and 6 of the input, its width, height and depth are the
  24-bit little-endian numbers stored in bytes 7-9, 10-12 and 13-15, and its
  \<open>headerSize\<close>, the offset of the payload, is 16.
\<close>

theorem parseASTCHeader_extracts:
  assumes "parseASTCHeader data = Inr h"
  shows "blockWidth h = uint (data ! 4) \<and> blockHeight h = uint (data ! 5)
       \<and> blockDepth h = uint (data ! 6)
       \<and> width h = uint24_le (data ! 7) (data ! 8) (data ! 9)
       \<and> height h = uint24_le (data ! 10) (data ! 11) (data ! 12)
       \<and> depth h = uint24_le (data ! 13) (data ! 14) (data ! 15)
       \<and> headerSize h = 16"
  using assms by (auto simp: parseASTCHeader_cases split: if_splits)

text \<open>C4 at the header of the end-to-end scenario.\<close>

theorem parseASTCHeader_extracts_witness:
  "parseASTCHeader example_header = Inr example_parsed
   \<and> (blockWidth example_parsed = uint (example_header ! 4)
      \<and> blockHeight example_parsed = uint (example_header ! 5)
      \<and> blockDepth example_parsed = uint (example_header ! 6)
      \<and> width example_parsed
          = uint24_le (example_header ! 7) (example_header ! 8) (example_header ! 9)
      \<and> height example_parsed
          = uint24_le (example_header ! 10) (example_header ! 11) (example_header ! 12)
      \<and> depth example_parsed
          = uint24_le (example_header ! 13) (example_header ! 14) (example_header ! 15)
      \<and> headerSize example_parsed = 16)"
  using parse_example parseASTCHeader_extracts [OF parse_example] by (rule conjI)

text \<open>
  C3. For every input buffer, \<open>parseASTCHeader\<close> fails if and only if the buffer is shorter
  than 16 bytes, or its first four bytes are not exactly 13 AB A1 5C, or one of the
  components the parser validates (block width, block height, image width, image height)
  is zero. In particular every buffer shorter than 16 bytes and every buffer with another
  prefix is rejected.
\<close>

theorem parseASTCHeader_fails_iff:
  "isl (parseASTCHeader data) \<longleftrightarrow>
     length data < 16 \<or> take 4 data \<noteq> magic_bytes
     \<or> (16 \<le> length data \<and>
         (data ! 4 = 0 \<or> data ! 5 = 0
          \<or> uint24_le (data ! 7) (data ! 8) (data ! 9) = 0
          \<or> uint24_le (data ! 10) (data ! 11) (data ! 12) = 0))"
  by (auto simp: parseASTCHeader_cases)

text \<open>C3 at a buffer of two bytes, at a header with the signature zeroed, both rejected,
  and at the header of the end-to-end scenario, accepted.\<close>

theorem parseASTCHeader_fails_iff_witness:
  "isl (parseASTCHeader [0x13, 0xAB]) \<and> isl (parseASTCHeader zeroed_magic_header)
   \<and> \<not> isl (parseASTCHeader example_header)"
proof (intro conjI)
  show "isl (parseASTCHeader [0x13, 0xAB])"
    using parseASTCHeader_fails_iff [of "[0x13, 0xAB]"] by simp
  have "take 4 zeroed_magic_header \<noteq> magic_bytes"
    by (simp add: zeroed_magic_header_def magic_bytes_def)
  then show "isl (parseASTCHeader zeroed_magic_header)"
    using parseASTCHeader_fails_iff [of zeroed_magic_header] by simp
  show "\<not> isl (parseASTCHeader example_header)"
    using parseASTCHeader_fails_iff [of example_header]
    by (simp add: example_header_def magic_bytes_def uint24_le_def)
qed

text \<open>
  C2, as the code has it. For every input buffer of at least 16 bytes that starts with the
  signature, \<open>parseASTCHeader\<close> fails if one of the four components block width, block
  height, image width and image height is zero, and succeeds otherwise. Block depth and
  image depth are extracted and returned, but not validated: the decoder is
  two-dimensional and never uses them.
\<close>

theorem parseASTCHeader_zero_check:
  assumes "16 \<le> length data" and "take 4 data = magic_bytes"
  shows "isl (parseASTCHeader data) \<longleftrightarrow>
           data ! 4 = 0 \<or> data ! 5 = 0
           \<or> uint24_le (data ! 7) (data ! 8) (data ! 9) = 0
           \<or> uint24_le (data ! 10) (data ! 11) (data ! 12) = 0"
  using assms by (auto simp: parseASTCHeader_cases)

text \<open>C2, as the code has it, at a header whose only zero components are the two
  depths: it is accepted.\<close>

theorem parseASTCHeader_zero_check_witness:
  "16 \<le> length flat_header \<and> take 4 flat_header = magic_bytes
   \<and> \<not> isl (parseASTCHeader flat_header)"
proof -
  have len: "16 \<le> length flat_header" by (simp add: flat_header_def)
  have mg: "take 4 flat_header = magic_bytes" by (simp add: flat_header_def magic_bytes_def)
  have "\<not> isl (parseASTCHeader flat_header)"
    using parseASTCHeader_zero_check [OF len mg]
    by (simp add: flat_header_def uint24_le_def)
  with len mg show ?thesis by simp
qed

text \<open>C2 as the specification states it fails: a header with block depth 0 and image
  depth 0, its other components not zero, parses.\<close>

theorem parseASTCHeader_accepts_zero_depth:
  "parseASTCHeader flat_header = Inr flat_parsed
   \<and> blockDepth flat_parsed = 0 \<and> depth flat_parsed = 0"
proof (intro conjI)
  show "parseASTCHeader flat_header = Inr flat_parsed" by code_simp
  show "blockDepth flat_parsed = 0" by (simp add: flat_parsed_def)
  show "depth flat_parsed = 0" by (simp add: flat_parsed_def)
qed

text \<open>
  C8. For every valid header record (the four validated components not zero, the block
  components within a byte, the dimensions within 24 bits), writing its fields into the
  sixteen-byte layout and parsing the result gives a record with the same block width,
  block height, block depth, width, height and depth.
\<close>

theorem parseASTCHeader_roundtrip:
  assumes "valid_header h"
  shows "\<exists>h'. parseASTCHeader (serializeASTCHeader h) = Inr h'
            \<and> blockWidth h' = blockWidth h \<and> blockHeight h' = blockHeight h
            \<and> blockDepth h' = blockDepth h
            \<and> width h' = width h \<and> height h' = height h \<and> depth h' = depth h"
proof -
  let ?d = "serializeASTCHeader h"
  have len: "length ?d = 16"
    by (simp add: serializeASTCHeader_def magic_bytes_def uint24_le_bytes_def)
  have mg: "take 4 ?d = magic_bytes"
    by (simp add: serializeASTCHeader_def magic_bytes_def)
  have nth: "?d ! 4 = word_of_int (blockWidth h)" "?d ! 5 = word_of_int (blockHeight h)"
    "?d ! 6 = word_of_int (blockDepth h)"
    "?d ! 7 = word_of_int (width h)" "?d ! 8 = word_of_int (width h div 256)"
    "?d ! 9 = word_of_int (width h div 65536)"
    "?d ! 10 = word_of_int (height h)" "?d ! 11 = word_of_int (height h div 256)"
    "?d ! 12 = word_of_int (height h div 65536)"
    "?d ! 13 = word_of_int (depth h)" "?d ! 14 = word_of_int (depth h div 256)"
    "?d ! 15 = word_of_int (depth h div 65536)"
    by (simp_all add: serializeASTCHeader_def magic_bytes_def uint24_le_bytes_def)
  have w: "uint24_le (?d ! 7) (?d ! 8) (?d ! 9) = width h"
    and ht: "uint24_le (?d ! 10) (?d ! 11) (?d ! 12) = height h"
    and dp: "uint24_le (?d ! 13) (?d ! 14) (?d ! 15) = depth h"
    using assms unfolding nth valid_header_def by (simp_all add: uint24_le_of_bytes)
  have bnz: "?d ! 4 \<noteq> 0" "?d ! 5 \<noteq> 0"
    using assms unfolding nth valid_header_def by (simp_all add: byte_of_int_nonzero)
  have b: "uint (?d ! 4) = blockWidth h" "uint (?d ! 5) = blockHeight h"
    "uint (?d ! 6) = blockDepth h"
    using assms unfolding nth valid_header_def by (simp_all add: uint_byte_of_int)
  have nz: "width h \<noteq> 0" "height h \<noteq> 0"
    using assms by (simp_all add: valid_header_def)
  show ?thesis
    by (simp add: parseASTCHeader_cases [of ?d] len mg w ht dp bnz b nz)
qed

text \<open>C8 at the record of the end-to-end scenario.\<close>

theorem parseASTCHeader_roundtrip_witness:
  "valid_header example_parsed
   \<and> (\<exists>h'. parseASTCHeader (serializeASTCHeader example_parsed) = Inr h'
          \<and> blockWidth h' = blockWidth example_parsed
          \<and> blockHeight h' = blockHeight example_parsed
          \<and> blockDepth h' = blockDepth example_parsed
          \<and> width h' = width example_parsed \<and> height h' = height example_parsed
          \<and> depth h' = depth example_parsed)"
proof -
  have v: "valid_header example_parsed"
    by (simp add: valid_header_def example_parsed_def)
  from v parseASTCHeader_roundtrip [OF v] show ?thesis by (rule conjI)
qed

section \<open>What the decoder computes\<close>

lemma subarray_to_end: "0 \<le> b \<Longrightarrow> subarray xs b (int (length xs)) = drop (nat b) xs"
  by (auto simp: subarray_def Let_def min_def max_def)

lemma subarray_from_start: "0 \<le> c \<Longrightarrow> subarray xs 0 c = take (nat c) xs"
  by (auto simp: subarray_def Let_def min_def max_def)

lemma js_bind_step: "f s = (Inr a, s1) \<Longrightarrow> js_bind f g s = g a s1"
  by (simp add: js_bind_def)

lemma js_bind_fail: "f s = (Inl e, s1) \<Longrightarrow> js_bind f g s = (Inl e, s1)"
  by (simp add: js_bind_def)

lemma js_bind_Inr:
  assumes "js_bind f g s = (Inr v, s')"
  shows "\<exists>a s1. f s = (Inr a, s1) \<and> g a s1 = (Inr v, s')"
  using assms by (auto simp: js_bind_def split: prod.splits sum.splits)

lemma decodeASTCTexture_parsed:
  assumes "wasm s = Some w" and "parseASTCHeader data = Inr h"
  shows "decodeASTCTexture m data s =
     (if length data = 16 then (Inl NoCompressedData, s)
      else try_finally (decodeASTCTexture_try m h (drop 16 data))
             (decodeASTCTexture_finally m) s)"
  using parse_length [OF assms(2)]
  by (auto simp: decodeASTCTexture_def assms parse_headerSize [OF assms(2)] subarray_to_end)

lemma fitDecodedImage_same:
  assumes "int (length img) = width h * height h * 4"
  shows "fitDecodedImage h img s = (Inr img, s)"
  using assms by (simp add: fitDecodedImage_def js_return_def)

lemma fitDecodedImage_repair:
  assumes "int (length img) \<noteq> width h * height h * 4"
    and "0 \<le> width h * height h * 4"
    and "can_allocate s (nat (width h * height h * 4))"
  shows "fitDecodedImage h img s =
           (Inr (take (nat (width h * height h * 4)) img
                 @ replicate (nat (width h * height h * 4) - length img) 0), s)"
proof -
  let ?n = "width h * height h * 4"
  have sub: "subarray img 0 (min (int (length img)) ?n) = take (nat ?n) img"
    using assms(2) by (simp add: subarray_from_start min_def)
  show ?thesis
    using assms
    by (simp add: fitDecodedImage_def Let_def sub typed_set_def new_Uint8Array_def
          js_bind_def js_return_def)
qed

lemma fitDecodedImage_refused:
  assumes "int (length img) \<noteq> width h * height h * 4"
    and "\<not> can_allocate s (nat (width h * height h * 4))"
  shows "fitDecodedImage h img s = (Inl RangeError, s)"
  using assms by (simp add: fitDecodedImage_def Let_def new_Uint8Array_def js_bind_def)

lemma repair_length: "length (take n img @ replicate (n - length img) (0 :: byte)) = n"
  by auto

lemma repair_prefix:
  "take (min (length img) n) (take n img @ replicate (n - length img) (0 :: byte))
     = take (min (length img) n) img"
  by (simp add: min_def)

lemma repair_padding:
  "drop (min (length img) n) (take n img @ replicate (n - length img) (0 :: byte))
     = replicate (n - min (length img) n) 0"
  by (simp add: min_def)

lemma fitDecodedImage_length:
  assumes "fitDecodedImage h img s = (Inr out, s')"
  shows "int (length out) = width h * height h * 4"
proof (cases "int (length img) = width h * height h * 4")
  case True
  then show ?thesis using assms by (simp add: fitDecodedImage_same)
next
  case False
  have pos: "0 \<le> width h * height h * 4" and can: "can_allocate s (nat (width h * height h * 4))"
    using assms False
    by (auto simp: fitDecodedImage_def Let_def new_Uint8Array_def js_bind_def split: if_splits)
  from fitDecodedImage_repair [OF False pos can] assms
  have "out = take (nat (width h * height h * 4)) img
                @ replicate (nat (width h * height h * 4) - length img) 0"
    by simp
  then have "length out = nat (width h * height h * 4)"
    by (simp only: repair_length)
  then show ?thesis using pos by simp
qed

lemma try_finally_Inr:
  assumes "try_finally body cleanup s = (Inr v, s')"
  shows "\<exists>s1. body s = (Inr v, s1)"
  using assms by (auto simp: try_finally_def split: prod.splits sum.splits)

lemma try_finally_run:
  assumes "body s = (outcome, s1)" and "cleanup s1 = (fin, s2)"
  shows "try_finally body cleanup s = ((case fin of Inl e \<Rightarrow> Inl e | Inr _ \<Rightarrow> outcome), s2)"
  using assms by (simp add: try_finally_def split: sum.splits)

lemma decodeASTCTexture_try_fields:
  assumes "width h1 = width h2" "height h1 = height h2"
    "blockWidth h1 = blockWidth h2" "blockHeight h1 = blockHeight h2"
  shows "decodeASTCTexture_try m h1 c = decodeASTCTexture_try m h2 c"
  unfolding decodeASTCTexture_try_def astcDecode_call_def fitDecodedImage_def assms ..

lemma parse_depth_bytes:
  fixes data :: "byte list" and a b c e :: byte
  defines "data' \<equiv> data[6 := a, 13 := b, 14 := c, 15 := e]"
  shows "(\<exists>err. parseASTCHeader data = Inl err \<and> parseASTCHeader data' = Inl err)
       \<or> (\<exists>h h'. parseASTCHeader data = Inr h \<and> parseASTCHeader data' = Inr h'
            \<and> width h' = width h \<and> height h' = height h
            \<and> blockWidth h' = blockWidth h \<and> blockHeight h' = blockHeight h)"
proof -
  have len: "length data' = length data" by (simp add: data'_def)
  have mg: "take 4 data' = take 4 data" by (simp add: data'_def)
  have nth: "data' ! 4 = data ! 4" "data' ! 5 = data ! 5" "data' ! 7 = data ! 7"
    "data' ! 8 = data ! 8" "data' ! 9 = data ! 9" "data' ! 10 = data ! 10"
    "data' ! 11 = data ! 11" "data' ! 12 = data ! 12"
    by (simp_all add: data'_def)
  show ?thesis
    by (simp add: parseASTCHeader_cases [of data] parseASTCHeader_cases [of data'] len mg nth)
qed

lemma decodeASTCTexture_depth_bytes:
  "decodeASTCTexture m (data[6 := a, 13 := b, 14 := c, 15 := e]) s = decodeASTCTexture m data s"
proof (cases "wasm s")
  case None
  then show ?thesis by (simp add: decodeASTCTexture_def)
next
  case (Some w)
  let ?data' = "data[6 := a, 13 := b, 14 := c, 15 := e]"
  from parse_depth_bytes [of data a b c e]
  consider (fail) err where "parseASTCHeader data = Inl err" "parseASTCHeader ?data' = Inl err"
    | (ok) h h' where "parseASTCHeader data = Inr h" "parseASTCHeader ?data' = Inr h'"
        "width h' = width h" "height h' = height h"
        "blockWidth h' = blockWidth h" "blockHeight h' = blockHeight h"
    by blast
  then show ?thesis
  proof cases
    case fail
    then show ?thesis by (simp add: decodeASTCTexture_def Some)
  next
    case ok
    have payload: "drop 16 ?data' = drop 16 data" by simp
    have "decodeASTCTexture_try m h' (drop 16 data) = decodeASTCTexture_try m h (drop 16 data)"
      using ok(3-6) by (rule decodeASTCTexture_try_fields)
    then show ?thesis
      by (simp add: decodeASTCTexture_parsed [OF Some ok(1)]
            decodeASTCTexture_parsed [OF Some ok(2)] payload)
  qed
qed

section \<open>The errors of the calls into the module\<close>





















section \<open>The path of the payload through the module\<close>

lemma ToInt32_sint: "ToInt32 (Some (sint (r :: i32))) = r"
  by (simp add: ToInt32_def)

lemma js_ushr0_sint: "js_ushr0 (Some (sint (p :: i32))) = uint p"
  by (simp add: js_ushr0_def ToInt32_def)

lemma ToInt32_uint: "ToInt32 (Some (uint (p :: i32))) = p"
  by (simp add: ToInt32_def)

lemma getUint8Memory0_state:
  assumes "getUint8Memory0 s = (Inr b, s')"
  shows "s' = s\<lparr>cachedUint8Memory0 := Some b\<rparr>"
  using assms by (auto simp: getUint8Memory0_def split: option.splits if_splits)

lemma astcDecode_call_live:
  assumes "astcDecode_call m h c s = (Inr img, s1)"
  shows "wasm s \<noteq> None"
proof
  assume "wasm s = None"
  then have "astcDecode_call m h c s = (Inl TypeError, s)"
    by (simp add: astcDecode_call_def astcDecode_enter_def js_bind_def call_export_def)
  with assms show False by simp
qed

lemma fitDecodedImage_state: "snd (fitDecodedImage h img s) = s"
  by (simp add: fitDecodedImage_def Let_def new_Uint8Array_def js_bind_def js_return_def
        js_throw_def split: option.splits)

lemma decode_after_call:
  assumes "parseASTCHeader data = Inr h" and "16 < length data"
    and "astcDecode_call m h (drop 16 data) s = (Inr img, s1)"
    and "decodeASTCTexture_finally m s1 = (cleanup, s2)"
  shows "decodeASTCTexture m data s =
           ((case cleanup of
               Inl e \<Rightarrow> Inl e
             | Inr _ \<Rightarrow> fst (fitDecodedImage h img s1)), s2)"
proof -
  obtain w where w: "wasm s = Some w"
    using astcDecode_call_live [OF assms(3)] by auto
  obtain r where fit: "fitDecodedImage h img s1 = (r, s1)"
    using fitDecodedImage_state [of h img s1] by (cases "fitDecodedImage h img s1") simp
  have "decodeASTCTexture_try m h (drop 16 data) s = (r, s1)"
    by (simp add: decodeASTCTexture_try_def js_bind_def assms(3) fit)
  then have "try_finally (decodeASTCTexture_try m h (drop 16 data))
      (decodeASTCTexture_finally m) s = ((case cleanup of Inl e \<Rightarrow> Inl e | Inr _ \<Rightarrow> r), s2)"
    by (simp add: try_finally_def assms(4) split: sum.splits)
  then show ?thesis
    using assms(2)
    by (cases cleanup) (simp_all add: decodeASTCTexture_parsed [OF w assms(1)] fit)
qed

lemma astcDecode_call_forwards:
  assumes init: "wasm s = Some w"
    and sp: "wbindgen_add_to_stack_pointer m (ToInt32 (Some (- 16))) (buffers s, w)
               = (Inr r, bs1, w1)"
    and al: "wbindgen_malloc m (ToInt32 (Some (int (length c)))) (ToInt32 (Some 1))
               (bs1, w1) = (Inr p, bs2, w2)"
    and vw: "getUint8Memory0 (s\<lparr>buffers := bs2, wasm := Some w2\<rparr>) = (Inr b, s3)"
    and fits: "unat p + length c \<le> length (bs2 b)"
    and dec: "astcDecode m r p (ToInt32 (Some (int (length c))))
                (ToInt32 (Some (width h))) (ToInt32 (Some (height h)))
                (ToInt32 (Some (blockWidth h))) (ToInt32 (Some (blockHeight h)))
                (bs2(b := take (unat p) (bs2 b) @ c @ drop (unat p + length c) (bs2 b)), w2)
               = (Inr (), bs3, w3)"
    and rd: "astcDecode_readback m (sint r)
               (s3\<lparr>WASM_VECTOR_LEN := length c, buffers := bs3, wasm := Some w3\<rparr>)
               = (Inr img, s4)"
  shows "astcDecode_call m h c s = (Inr img, s4)"
proof -
  note s3 = getUint8Memory0_state [OF vw]
  have enter: "astcDecode_enter m c s =
      (Inr (sint r, uint p),
       s3\<lparr>buffers := bs2(b := take (unat p) (bs2 b) @ c @ drop (unat p + length c) (bs2 b)),
          WASM_VECTOR_LEN := length c\<rparr>)"
    using fits
    by (simp add: astcDecode_enter_def passArray8ToWasm0_def js_bind_def call_export_def init sp
          al vw js_ushr0_sint view_set_def typed_set_def js_return_def s3 Let_def)
  show ?thesis
    unfolding astcDecode_call_def
    using rd
    by (simp add: js_bind_def enter call_export_def s3 ToInt32_sint ToInt32_uint dec)
qed

section \<open>Runs of the decoder on the small module\<close>

lemma ready_instance: "wasm ready_state = Some fresh_instance"
  by (simp add: ready_state_def)

lemma fresh_memory_one_page: "length (buffers ready_state (memory_buffer fresh_instance)) = 65536"
  by (simp add: ready_state_def fresh_instance_def fresh_memory_def spare_memory_def)

lemma return_area:
  assumes "8 \<le> length mem"
  shows "int32_get (int32_view mem) 0 0
           = Some (sint (int32_le (mem ! 0) (mem ! 1) (mem ! 2) (mem ! 3)))"
    and "int32_get (int32_view mem) 0 1
           = Some (sint (int32_le (mem ! 4) (mem ! 5) (mem ! 6) (mem ! 7)))"
proof -
  have "0 < length mem div 4" "1 < length mem div 4" using assms by simp_all
  then show "int32_get (int32_view mem) 0 0
           = Some (sint (int32_le (mem ! 0) (mem ! 1) (mem ! 2) (mem ! 3)))"
    and "int32_get (int32_view mem) 0 1
           = Some (sint (int32_le (mem ! 4) (mem ! 5) (mem ! 6) (mem ! 7)))"
    by (simp_all add: int32_get_def int32_view_def numeral_2_eq_2)
qed

lemma run_stack_pointer:
  "wbindgen_add_to_stack_pointer first_pixel_module delta world = (Inr 0, world)"
  by (simp add: first_pixel_module_def)

lemma run_malloc: "wbindgen_malloc first_pixel_module n align world = (Inr 8, world)"
  by (simp add: first_pixel_module_def)

lemma run_view:
  "getUint8Memory0 (ready_state\<lparr>buffers := buffers ready_state, wasm := Some fresh_instance\<rparr>)
     = (Inr 0, ready_state\<lparr>cachedUint8Memory0 := Some 0\<rparr>)"
  by (simp add: getUint8Memory0_def ready_state_def fresh_instance_def)

lemma run_fits: "unat (8 :: i32) + length one_block \<le> length (buffers ready_state 0)"
  by (simp add: ready_state_def fresh_memory_def one_block_def)

lemma run_astcDecode:
  "astcDecode first_pixel_module 0 8 len wd ht bw bh
     ((buffers ready_state)(0 := take (unat (8 :: i32)) (buffers ready_state 0) @ one_block
         @ drop (unat (8 :: i32) + length one_block) (buffers ready_state 0)), fresh_instance)
   = (Inr (), (\<lambda>_. [])(0 := used_memory), fresh_instance)"
  by (simp add: first_pixel_module_def ready_state_def fresh_instance_def fresh_memory_def
        used_memory_def one_block_def store_i32_def)

lemma run_readback:
  "astcDecode_readback first_pixel_module (sint (0 :: i32))
     (ready_state\<lparr>cachedUint8Memory0 := Some 0, WASM_VECTOR_LEN := length one_block,
        buffers := (\<lambda>_. [])(0 := used_memory), wasm := Some fresh_instance\<rparr>)
   = (Inr [255, 0, 0, 255], used_state)"
  by (simp add: astcDecode_readback_def read_int32_def getInt32Memory0_def getUint8Memory0_def
        getArrayU8FromWasm0_def typed_slice_def call_export_def js_bind_def js_return_def
        ready_state_def used_state_def fresh_instance_def used_memory_def one_block_def
        first_pixel_module_def return_area int32_le_def js_ushr0_def ToInt32_def subarray_def
        spare_memory_def Let_def)

lemma run_finally:
  "decodeASTCTexture_finally first_pixel_module used_state = (Inr (), used_state)"
  by (simp add: decodeASTCTexture_finally_def call_export_def js_bind_def js_return_def
        first_pixel_module_def used_state_def)

lemma run_call:
  "astcDecode_call first_pixel_module h one_block ready_state = (Inr [255, 0, 0, 255], used_state)"
  by (rule astcDecode_call_forwards [OF ready_instance run_stack_pointer run_malloc run_view
        run_fits run_astcDecode run_readback])


lemma parse_huge: "parseASTCHeader (huge_header @ one_block) = Inr huge_parsed"
  by (simp add: parseASTCHeader_cases huge_header_def huge_parsed_def magic_bytes_def
        uint24_le_def decimal.simps char_of_def bit_0)

lemma run_first_pixel:
  assumes "parseASTCHeader (hdr @ one_block) = Inr h" and "length hdr = 16"
  shows "decodeASTCTexture first_pixel_module (hdr @ one_block) ready_state =
           (fst (fitDecodedImage h [255, 0, 0, 255] used_state), used_state)"
proof -
  have long: "16 < length (hdr @ one_block)" using assms(2) by (simp add: one_block_def)
  have payload: "drop 16 (hdr @ one_block) = one_block" using assms(2) by simp
  have call: "astcDecode_call first_pixel_module h (drop 16 (hdr @ one_block)) ready_state
                = (Inr [255, 0, 0, 255], used_state)"
    unfolding payload by (rule run_call)
  show ?thesis
    using decode_after_call [OF assms(1) long call run_finally] by simp
qed

lemma run_deep_pixel:
  "decodeASTCTexture first_pixel_module (deep_pixel_header @ one_block) ready_state =
     (Inr [255, 0, 0, 255], used_state)"
proof -
  have "fitDecodedImage deep_pixel_parsed [255, 0, 0, 255] used_state
          = (Inr [255, 0, 0, 255], used_state)"
    by (rule fitDecodedImage_same) (simp add: deep_pixel_parsed_def)
  moreover have "length deep_pixel_header = 16" by (simp add: deep_pixel_header_def)
  ultimately show ?thesis using run_first_pixel [OF parse_deep_pixel] by simp
qed


lemma run_huge:
  "decodeASTCTexture first_pixel_module (huge_header @ one_block) ready_state
     = (Inl RangeError, used_state)"
proof -
  have "fitDecodedImage huge_parsed [255, 0, 0, 255] used_state = (Inl RangeError, used_state)"
    by (rule fitDecodedImage_refused) (simp_all add: huge_parsed_def used_state_def)
  moreover have "length huge_header = 16" by (simp add: huge_header_def)
  ultimately show ?thesis using run_first_pixel [OF parse_huge] by simp
qed

lemma stale_view_after_second_init:
  assumes "memory_buffer w \<noteq> 0"
  shows "fst (getUint8Memory0 (initASTCDecoder_done w mem used_state)) = Inr 0"
  using assms
  by (simp add: getUint8Memory0_def initASTCDecoder_done_def used_state_def used_memory_def)

lemma flat_is_example_updated:
  "flat_header @ one_block = (example_header @ one_block)[6 := 0, 13 := 0, 14 := 0, 15 := 0]"
  by code_simp

lemma four_zeros: "replicate 4 (0 :: byte) = [0, 0, 0, 0]"
  by (simp add: numeral_eq_Suc)

lemma run_two_pixel:
  "decodeASTCTexture first_pixel_module (two_pixel_header @ one_block) ready_state =
     (Inr [255, 0, 0, 255, 0, 0, 0, 0], used_state)"
proof -
  have "fitDecodedImage two_pixel_parsed [255, 0, 0, 255] used_state
          = (Inr (take (nat (width two_pixel_parsed * height two_pixel_parsed * 4))
                    [255, 0, 0, 255]
               @ replicate (nat (width two_pixel_parsed * height two_pixel_parsed * 4)
                    - length [255, 0, 0, 255 :: byte]) 0), used_state)"
    by (rule fitDecodedImage_repair) (simp_all add: two_pixel_parsed_def used_state_def)
  then have "fitDecodedImage two_pixel_parsed [255, 0, 0, 255] used_state
          = (Inr [255, 0, 0, 255, 0, 0, 0, 0], used_state)"
    by (simp add: two_pixel_parsed_def four_zeros)
  moreover have "length two_pixel_header = 16" by (simp add: two_pixel_header_def)
  ultimately show ?thesis using run_first_pixel [OF parse_two_pixel] by simp
qed

lemma payload_of_block: "length hdr = 16 \<Longrightarrow> drop 16 (hdr @ one_block) = one_block"
  by simp


section \<open>Properties of the decoder\<close>

text \<open>
  C1, as the code has it. For every input buffer whose header parses with width W and
  height H, a successful call of \<open>decodeASTCTexture\<close>, whatever the module does, returns a
  buffer of exactly W * H * 4 bytes. The declared depth D does not enter the size: the
  decoder is two-dimensional, as the comment above it says (width * height * 4 bytes).
\<close>

theorem decodeASTCTexture_output_size:
  assumes "parseASTCHeader data = Inr h"
    and "decodeASTCTexture m data s = (Inr out, s')"
  shows "int (length out) = width h * height h * 4"
proof -
  obtain w where w: "wasm s = Some w"
    using assms(2) by (cases "wasm s") (auto simp: decodeASTCTexture_def)
  from assms(2) have
    "try_finally (decodeASTCTexture_try m h (drop 16 data)) (decodeASTCTexture_finally m) s
       = (Inr out, s')"
    unfolding decodeASTCTexture_parsed [OF w assms(1)]
    by (auto split: if_splits)
  from try_finally_Inr [OF this] obtain s1 where
    "decodeASTCTexture_try m h (drop 16 data) s = (Inr out, s1)"
    by auto
  then have "js_bind (astcDecode_call m h (drop 16 data)) (fitDecodedImage h) s = (Inr out, s1)"
    by (simp add: decodeASTCTexture_try_def)
  from js_bind_Inr [OF this] obtain img s0 where "fitDecodedImage h img s0 = (Inr out, s1)"
    by auto
  then show ?thesis by (rule fitDecodedImage_length)
qed

text \<open>C1, as the code has it, at a 1x1 image of depth 2 followed by one block, decoded
  by the small module: four bytes.\<close>

theorem decodeASTCTexture_output_size_witness:
  "parseASTCHeader (deep_pixel_header @ one_block) = Inr deep_pixel_parsed
   \<and> decodeASTCTexture first_pixel_module (deep_pixel_header @ one_block) ready_state =
       (Inr [255, 0, 0, 255], used_state)
   \<and> int (length [255, 0, 0, 255 :: byte])
       = width deep_pixel_parsed * height deep_pixel_parsed * 4"
  using parse_deep_pixel run_deep_pixel
    decodeASTCTexture_output_size [OF parse_deep_pixel run_deep_pixel]
  by (intro conjI)

text \<open>C1 as the specification states it fails: the header declares width 1, height 1
  and depth 2, the call succeeds, and the buffer has 4 bytes, not 1 * 1 * 2 * 4.\<close>

theorem decodeASTCTexture_size_ignores_depth:
  "parseASTCHeader (deep_pixel_header @ one_block) = Inr deep_pixel_parsed
   \<and> fst (decodeASTCTexture first_pixel_module (deep_pixel_header @ one_block) ready_state)
       = Inr [255, 0, 0, 255]
   \<and> int (length [255, 0, 0, 255 :: byte])
       \<noteq> width deep_pixel_parsed * height deep_pixel_parsed * depth deep_pixel_parsed * 4"
proof (intro conjI)
  show "parseASTCHeader (deep_pixel_header @ one_block) = Inr deep_pixel_parsed"
    by (rule parse_deep_pixel)
  show "fst (decodeASTCTexture first_pixel_module (deep_pixel_header @ one_block) ready_state)
          = Inr [255, 0, 0, 255]"
    by (simp add: run_deep_pixel)
  show "int (length [255, 0, 0, 255 :: byte])
          \<noteq> width deep_pixel_parsed * height deep_pixel_parsed * depth deep_pixel_parsed * 4"
    by (simp add: deep_pixel_parsed_def)
qed

text \<open>
  C5, as the code has it. For every input whose header parses with width W and height H
  and is followed by at least one payload byte: when the calls into the module of lines
  189-217 return (the stack pointer call, the allocator, \<open>astcDecode\<close> and
  \<^verbatim>\<open>__wbindgen_free\<close>, entered only with an initialised module) and the copy \<open>img\<close> that
  they deliver, read through the memory views of the script, has a length other than
  W * H * 4, then \<open>decodeASTCTexture\<close> ends in the state the \<^verbatim>\<open>finally\<close> call leaves, and
  \<^item> fails with what the \<^verbatim>\<open>finally\<close> call throws, if it throws;
  \<^item> otherwise fails with a \<^verbatim>\<open>RangeError\<close>, if the engine cannot allocate the
    W * H * 4 bytes of line 225;
  \<^item> otherwise returns a buffer of exactly W * H * 4 bytes whose first
    min (length img) (W * H * 4) bytes are those of \<open>img\<close> and whose other bytes are zero.
\<close>

theorem decodeASTCTexture_size_repair:
  assumes "parseASTCHeader data = Inr h" and "16 < length data"
    and "astcDecode_call m h (drop 16 data) s = (Inr img, s1)"
    and "int (length img) \<noteq> width h * height h * 4"
    and "decodeASTCTexture_finally m s1 = (cleanup, s2)"
  shows "decodeASTCTexture m data s =
           ((case cleanup of
               Inl e \<Rightarrow> Inl e
             | Inr _ \<Rightarrow>
                 if can_allocate s1 (nat (width h * height h * 4))
                 then Inr (zero_padded (nat (width h * height h * 4)) img)
                 else Inl RangeError), s2)
       \<and> int (length (zero_padded (nat (width h * height h * 4)) img)) = width h * height h * 4
       \<and> take (min (length img) (nat (width h * height h * 4)))
             (zero_padded (nat (width h * height h * 4)) img)
           = take (min (length img) (nat (width h * height h * 4))) img
       \<and> drop (min (length img) (nat (width h * height h * 4)))
             (zero_padded (nat (width h * height h * 4)) img)
           = replicate (nat (width h * height h * 4)
                          - min (length img) (nat (width h * height h * 4))) 0"
proof (intro conjI)
  let ?n = "nat (width h * height h * 4)"
  have pos: "0 \<le> width h * height h * 4"
    using parse_positive [OF assms(1)] by simp
  show "decodeASTCTexture m data s =
           ((case cleanup of
               Inl e \<Rightarrow> Inl e
             | Inr _ \<Rightarrow>
                 if can_allocate s1 ?n then Inr (zero_padded ?n img) else Inl RangeError), s2)"
    unfolding decode_after_call [OF assms(1,2,3,5)] zero_padded_def
    by (cases "can_allocate s1 ?n"; cases cleanup)
       (simp_all add: fitDecodedImage_repair [OF assms(4) pos]
          fitDecodedImage_refused [OF assms(4)])
  show "int (length (zero_padded ?n img)) = width h * height h * 4"
    unfolding zero_padded_def repair_length using pos by simp
  show "take (min (length img) ?n) (zero_padded ?n img) = take (min (length img) ?n) img"
    unfolding zero_padded_def by (rule repair_prefix)
  show "drop (min (length img) ?n) (zero_padded ?n img)
          = replicate (?n - min (length img) ?n) 0"
    unfolding zero_padded_def by (rule repair_padding)
qed

text \<open>C5, as the code has it, at a 2x1 image followed by one block: the small module
  delivers four bytes, the decoder expects eight, the engine can allocate them and the
  \<^verbatim>\<open>finally\<close> call returns.\<close>

theorem decodeASTCTexture_size_repair_witness:
  "parseASTCHeader (two_pixel_header @ one_block) = Inr two_pixel_parsed
   \<and> 16 < length (two_pixel_header @ one_block)
   \<and> astcDecode_call first_pixel_module two_pixel_parsed
        (drop 16 (two_pixel_header @ one_block)) ready_state
       = (Inr [255, 0, 0, 255], used_state)
   \<and> int (length [255, 0, 0, 255 :: byte]) \<noteq> width two_pixel_parsed * height two_pixel_parsed * 4
   \<and> decodeASTCTexture_finally first_pixel_module used_state = (Inr (), used_state)
   \<and> can_allocate used_state (nat (width two_pixel_parsed * height two_pixel_parsed * 4))
   \<and> decodeASTCTexture first_pixel_module (two_pixel_header @ one_block) ready_state
       = (Inr (zero_padded 8 [255, 0, 0, 255]), used_state)
   \<and> zero_padded 8 [255, 0, 0, 255] = [255, 0, 0, 255, 0, 0, 0, 0]"
proof -
  have len: "length two_pixel_header = 16" by (simp add: two_pixel_header_def)
  have long: "16 < length (two_pixel_header @ one_block)"
    by (simp add: two_pixel_header_def one_block_def)
  have call: "astcDecode_call first_pixel_module two_pixel_parsed
                (drop 16 (two_pixel_header @ one_block)) ready_state
              = (Inr [255, 0, 0, 255], used_state)"
    unfolding payload_of_block [OF len] by (rule run_call)
  have differs: "int (length [255, 0, 0, 255 :: byte])
                   \<noteq> width two_pixel_parsed * height two_pixel_parsed * 4"
    by (simp add: two_pixel_parsed_def)
  have room: "can_allocate used_state (nat (width two_pixel_parsed * height two_pixel_parsed * 4))"
    by (simp add: two_pixel_parsed_def used_state_def)
  have size: "nat (width two_pixel_parsed * height two_pixel_parsed * 4) = 8"
    by (simp add: two_pixel_parsed_def)
  have "decodeASTCTexture first_pixel_module (two_pixel_header @ one_block) ready_state
          = (Inr (zero_padded 8 [255, 0, 0, 255]), used_state)"
    using decodeASTCTexture_size_repair [OF parse_two_pixel long call differs run_finally] room
    by (simp add: size)
  moreover have "zero_padded 8 [255, 0, 0, 255] = [255, 0, 0, 255, 0, 0, 0, 0]"
    by (simp add: zero_padded_def four_zeros)
  ultimately show ?thesis
    using parse_two_pixel long call differs run_finally room by (intro conjI)
qed

text \<open>C5 as the specification states it fails: the header declares 16777215 x 16777215,
  the module delivers four bytes, not the 1125899772624900 expected, and the call fails
  with the \<^verbatim>\<open>RangeError\<close> of line 225 on an engine that allocates no typed array of
  \<open>2 ^ 32\<close> bytes or more.\<close>

theorem decodeASTCTexture_repair_refused:
  "parseASTCHeader (huge_header @ one_block) = Inr huge_parsed
   \<and> astcDecode_call first_pixel_module huge_parsed (drop 16 (huge_header @ one_block))
        ready_state = (Inr [255, 0, 0, 255], used_state)
   \<and> int (length [255, 0, 0, 255 :: byte]) \<noteq> width huge_parsed * height huge_parsed * 4
   \<and> decodeASTCTexture first_pixel_module (huge_header @ one_block) ready_state
       = (Inl RangeError, used_state)"
proof (intro conjI)
  have len: "length huge_header = 16" by (simp add: huge_header_def)
  show "parseASTCHeader (huge_header @ one_block) = Inr huge_parsed"
    by (rule parse_huge)
  show "astcDecode_call first_pixel_module huge_parsed (drop 16 (huge_header @ one_block))
          ready_state = (Inr [255, 0, 0, 255], used_state)"
    unfolding payload_of_block [OF len] by (rule run_call)
  show "int (length [255, 0, 0, 255 :: byte]) \<noteq> width huge_parsed * height huge_parsed * 4"
    by (simp add: huge_parsed_def)
  show "decodeASTCTexture first_pixel_module (huge_header @ one_block) ready_state
          = (Inl RangeError, used_state)"
    by (rule run_huge)
qed




text \<open>
  C7. For every input buffer whose first four bytes are not the signature,
  \<open>decodeASTCTexture\<close> fails and leaves the state as it was: the error is that of the
  check of \<^verbatim>\<open>wasm\<close>, of the length check or of the signature check, and neither the
  outcome nor the state depends on the module, none of whose exports (allocator, decoder)
  is entered; no output buffer exists yet.
\<close>

theorem decodeASTCTexture_bad_magic:
  assumes "take 4 data \<noteq> magic_bytes"
  shows "decodeASTCTexture m data s =
           (Inl (if wasm s = None then NotInitialized
                 else if length data < 16 then HeaderTooShort (length data)
                 else InvalidMagic), s)"
  using assms
  by (auto simp: decodeASTCTexture_def parseASTCHeader_cases split: option.splits)

text \<open>C7 at the end-to-end header with the signature zeroed, followed by one block.\<close>

theorem decodeASTCTexture_bad_magic_witness:
  "take 4 (zeroed_magic_header @ one_block) \<noteq> magic_bytes
   \<and> decodeASTCTexture first_pixel_module (zeroed_magic_header @ one_block) ready_state
       = (Inl InvalidMagic, ready_state)"
proof -
  have bad: "take 4 (zeroed_magic_header @ one_block) \<noteq> magic_bytes"
    by (simp add: zeroed_magic_header_def magic_bytes_def)
  have "decodeASTCTexture first_pixel_module (zeroed_magic_header @ one_block) ready_state
          = (Inl InvalidMagic, ready_state)"
    using decodeASTCTexture_bad_magic [OF bad, of first_pixel_module ready_state]
    by (simp add: ready_instance zeroed_magic_header_def one_block_def)
  with bad show ?thesis by (rule conjI)
qed

text \<open>
  C9. For every two input buffers that are equal except in byte 6 (block depth) and in
  bytes 13-15 (image depth), \<open>decodeASTCTexture\<close>, on the same module and from the same
  state, has the same outcome, the same error or the same output buffer, and leaves the
  same state: the depth fields do not influence the decoding.
\<close>

theorem decodeASTCTexture_depth_independent:
  assumes "length d1 = length d2"
    and "\<forall>i<length d1. i \<notin> {6, 13, 14, 15} \<longrightarrow> d1 ! i = d2 ! i"
  shows "decodeASTCTexture m d1 s = decodeASTCTexture m d2 s"
proof -
  have "d1[6 := d2 ! 6, 13 := d2 ! 13, 14 := d2 ! 14, 15 := d2 ! 15] = d2"
  proof (rule nth_equalityI)
    show "length (d1[6 := d2 ! 6, 13 := d2 ! 13, 14 := d2 ! 14, 15 := d2 ! 15]) = length d2"
      using assms(1) by simp
  next
    fix i
    assume "i < length (d1[6 := d2 ! 6, 13 := d2 ! 13, 14 := d2 ! 14, 15 := d2 ! 15])"
    then have i: "i < length d1" by simp
    show "d1[6 := d2 ! 6, 13 := d2 ! 13, 14 := d2 ! 14, 15 := d2 ! 15] ! i = d2 ! i"
    proof (cases "i \<in> {6, 13, 14, 15}")
      case True
      then show ?thesis using i by (auto simp: nth_list_update)
    next
      case False
      then have "d1 ! i = d2 ! i" using assms(2) i by blast
      with False show ?thesis by simp
    qed
  qed
  then have "decodeASTCTexture m d2 s
               = decodeASTCTexture m (d1[6 := d2 ! 6, 13 := d2 ! 13, 14 := d2 ! 14, 15 := d2 ! 15]) s"
    by simp
  also have "\<dots> = decodeASTCTexture m d1 s"
    by (rule decodeASTCTexture_depth_bytes)
  finally show ?thesis by simp
qed

text \<open>C9 at the end-to-end header and the header with both depths zero, which is the
  former with bytes 6 and 13-15 overwritten, each followed by the same block.\<close>

theorem decodeASTCTexture_depth_independent_witness:
  "flat_header @ one_block = (example_header @ one_block)[6 := 0, 13 := 0, 14 := 0, 15 := 0]
   \<and> decodeASTCTexture first_pixel_module (example_header @ one_block) ready_state
       = decodeASTCTexture first_pixel_module (flat_header @ one_block) ready_state"
proof -
  have len: "length (example_header @ one_block) = length (flat_header @ one_block)"
    by (simp add: example_header_def flat_header_def)
  have same: "\<forall>i<length (example_header @ one_block). i \<notin> {6, 13, 14, 15} \<longrightarrow>
                (example_header @ one_block) ! i = (flat_header @ one_block) ! i"
    unfolding flat_is_example_updated by (simp add: nth_list_update)
  from flat_is_example_updated decodeASTCTexture_depth_independent [OF len same]
  show ?thesis by (rule conjI)
qed

text \<open>
  C10. For every input buffer of exactly 16 bytes that parses as a valid header,
  \<open>decodeASTCTexture\<close> fails and leaves the state as it was, with the error of line 185
  (or that of the check of \<^verbatim>\<open>wasm\<close>): no export of the module is entered on the empty
  payload.
\<close>

theorem decodeASTCTexture_header_only:
  assumes "length data = 16" and "parseASTCHeader data = Inr h"
  shows "decodeASTCTexture m data s =
           (Inl (if wasm s = None then NotInitialized else NoCompressedData), s)"
proof (cases "wasm s")
  case None
  then show ?thesis by (simp add: decodeASTCTexture_def)
next
  case (Some w)
  then show ?thesis using assms by (simp add: decodeASTCTexture_parsed [OF Some assms(2)])
qed

text \<open>C10 at the header of the end-to-end scenario alone.\<close>

theorem decodeASTCTexture_header_only_witness:
  "length example_header = 16 \<and> parseASTCHeader example_header = Inr example_parsed
   \<and> decodeASTCTexture first_pixel_module example_header ready_state
       = (Inl NoCompressedData, ready_state)"
proof -
  have len: "length example_header = 16" by (simp add: example_header_def)
  have "decodeASTCTexture first_pixel_module example_header ready_state
          = (Inl NoCompressedData, ready_state)"
    using decodeASTCTexture_header_only [OF len parse_example, of first_pixel_module ready_state]
    by (simp add: ready_instance)
  with len parse_example show ?thesis by (intro conjI)
qed


end
